theory Spec2Isabelle
  imports Complex_Main
begin

section \<open>The PoET enclave simulator\<close>

text \<open>
  A shallow embedding of \<^verbatim>\<open>poet_enclave_simulator.py\<close>: the operations
  \<^verbatim>\<open>create_signup_info\<close>, \<^verbatim>\<open>unseal_signup_data\<close>, \<^verbatim>\<open>verify_signup_info\<close>,
  \<^verbatim>\<open>create_wait_timer\<close>, \<^verbatim>\<open>deserialize_wait_timer\<close> and
  \<^verbatim>\<open>create_wait_certificate\<close> of the class \<^verbatim>\<open>_PoetEnclaveSimulator\<close>, which the
  module-level functions of the same names call.

  Conventions of the model.
  \<^item> Python \<^verbatim>\<open>str\<close> and \<^verbatim>\<open>bytes\<close> are both lists of 8-bit characters: a
    \<^verbatim>\<open>str\<close> is held as its UTF-8 bytes, so \<^verbatim>\<open>s.encode()\<close> is the identity.
  \<^item> Python floats are real numbers: rounding, infinities and NaN are left out.
  \<^item> Every \<^verbatim>\<open>raise\<close> is a result \<open>Inl e\<close>; a method that changes the class
    attributes returns the new enclave state beside its value.
  \<^item> The clock (\<^verbatim>\<open>time.time()\<close>, \<^verbatim>\<open>datetime.now()\<close>) and the freshly
    generated key are arguments of the operation that reads them.
  \<^item> The functions the module imports (the signing facade, base64, SHA-256, RSA, the
    JSON helpers, the SGX structures, the timer and certificate containers) are not part
    of the file; they are the fields of the record \<open>externals\<close>, and every operation
    takes them as its first argument.
\<close>

subsection \<open>Values, errors and state\<close>

type_synonym bytes = string

text \<open>The values \<^verbatim>\<open>json2dict\<close> can return and \<^verbatim>\<open>dict2json\<close> accepts.\<close>

datatype pyval =
    PNone
  | PBool bool
  | PNum real
  | PStr string
  | PList "pyval list"
  | PDict "(string \<times> pyval) list"

text \<open>
  The messages of the \<^verbatim>\<open>ValueError\<close>s that \<^verbatim>\<open>verify_signup_info\<close>,
  \<^verbatim>\<open>create_wait_timer\<close> and \<^verbatim>\<open>create_wait_certificate\<close> raise, in source order, and
  the one of \<^verbatim>\<open>math.log\<close>.
\<close>

datatype reason =
    VerificationReportMissing
  | SignatureMissing
  | SignatureInvalid
  | NoID
  | NoEpidPseudonym
  | AntiSybilMismatch
  | NoPseManifestStatus
  | PseManifestStatusNotOK
  | NoPseManifestHash
  | EvidencePayloadMissing
  | NoPseManifest
  | PseManifestHashMismatch
  | NoEnclaveQuoteStatus
  | EnclaveQuoteStatusNotOK
  | NoEnclaveQuote
  | ReportDataMismatch
  | MeasurementMismatch
  | BasenameMismatch
  | TimerNotInitialized
  | CertificateNotInitialized
  | NoActiveWaitTimer
  | NotCurrentWaitTimer
  | TimerNotExpired
  | TimerTimedOut
  | MathDomainError

text \<open>What an imported function can raise.\<close>

datatype library_error =
    UnicodeDecodeError
  | BinasciiError
  | JSONDecodeError
  | ParseError

datatype error =
    ValueError reason
  | AttributeError
  | TypeError
  | StructError
  | LibraryError library_error

record wait_timer =
  validator_address :: string
  duration :: real
  previous_certificate_id :: string
  local_mean :: real
  request_time :: real
  signature :: "string option"

record wait_certificate = wait_timer +
  nonce :: string
  block_hash :: string

record sgx_basename =
  name :: bytes

record sgx_measurement =
  m :: bytes

record sgx_report_data =
  d :: bytes

record sgx_report_body =
  mr_enclave :: sgx_measurement
  report_data :: sgx_report_data

record sgx_quote =
  basename :: sgx_basename
  report_body :: sgx_report_body

record signup_info =
  poet_public_key :: string
  proof_data :: string
  anti_sybil_id :: string
  sealed_signup_data :: bytes

text \<open>The class attributes of \<^verbatim>\<open>_PoetEnclaveSimulator\<close> that change or differ per process.\<close>

record enclave =
  cls_seal_private_key :: string
  cls_anti_sybil_id :: "string option"
  cls_poet_public_key :: "string option"
  cls_poet_private_key :: "string option"
  cls_active_wait_timer :: "wait_timer option"

text \<open>
  The imported functions, by the names the source calls them:
  \<^item> \<open>sign\<close>, \<open>verify\<close>, \<open>generate_pubkey\<close>: the facade \<^verbatim>\<open>sawtooth_signing\<close>; a
    signature is base64 text, and \<open>verify\<close> is handed \<^verbatim>\<open>cls._poet_public_key\<close>, which
    is \<^verbatim>\<open>None\<close> before signup;
  \<^item> \<open>b64encode\<close>, \<open>b64decode\<close>: \<^verbatim>\<open>base64\<close>; \<open>sha256\<close>: the digest of
    \<^verbatim>\<open>hashlib.sha256\<close>; \<open>decode\<close>: \<^verbatim>\<open>bytes.decode\<close>; \<open>upper\<close>: \<^verbatim>\<open>str.upper\<close>;
    \<open>str_repr\<close>: \<^verbatim>\<open>str\<close> of a number or a container;
  \<^item> \<open>report_sign\<close>, \<open>report_verify\<close>: RSA PKCS1v15 with SHA-256 under the report key
    pair of the class body, \<^verbatim>\<open>InvalidSignature\<close> read as \<open>False\<close>;
  \<^item> \<open>dict2json\<close>, \<open>json2dict\<close>: the helpers of \<^verbatim>\<open>utils\<close>;
  \<^item> \<open>serialize_to_bytes\<close>, \<open>parse_from_bytes\<close>: \<^verbatim>\<open>sgx_structs.SgxQuote\<close>;
  \<^item> \<open>serialize\<close>, \<open>wait_timer_from_serialized\<close>: \<^verbatim>\<open>EnclaveWaitTimer\<close>;
    \<open>serialize_certificate\<close>: \<^verbatim>\<open>EnclaveWaitCertificate.serialize\<close>;
  \<^item> \<open>NULL_BLOCK_IDENTIFIER\<close>: the constant of \<^verbatim>\<open>block_wrapper\<close>.
\<close>

record externals =
  sign :: "string \<Rightarrow> string \<Rightarrow> string"
  verify :: "string \<Rightarrow> string \<Rightarrow> string option \<Rightarrow> bool"
  generate_pubkey :: "string \<Rightarrow> string"
  b64encode :: "bytes \<Rightarrow> bytes"
  b64decode :: "bytes \<Rightarrow> library_error + bytes"
  sha256 :: "bytes \<Rightarrow> bytes"
  report_sign :: "bytes \<Rightarrow> bytes"
  report_verify :: "bytes \<Rightarrow> bytes \<Rightarrow> bool"
  dict2json :: "pyval \<Rightarrow> string"
  json2dict :: "string \<Rightarrow> library_error + pyval"
  decode :: "bytes \<Rightarrow> library_error + string"
  upper :: "string \<Rightarrow> string"
  str_repr :: "pyval \<Rightarrow> string"
  serialize_to_bytes :: "sgx_quote \<Rightarrow> bytes"
  parse_from_bytes :: "bytes \<Rightarrow> library_error + sgx_quote"
  serialize :: "wait_timer \<Rightarrow> string"
  wait_timer_from_serialized :: "string \<Rightarrow> string \<Rightarrow> library_error + wait_timer"
  serialize_certificate :: "wait_certificate \<Rightarrow> string"
  NULL_BLOCK_IDENTIFIER :: string

definition TIMER_TIMEOUT_PERIOD :: real where
  "TIMER_TIMEOUT_PERIOD = 30.0"

subsection \<open>The wait timer\<close>

text \<open>\<^verbatim>\<open>tag[-8:]\<close>: the last eight bytes, or all of them when there are fewer.\<close>

definition last8 :: "bytes \<Rightarrow> bytes" where
  "last8 tag = drop (length tag - 8) tag"

text \<open>
  \<^verbatim>\<open>struct.unpack('Q', b)[0]\<close>: an unsigned 64-bit integer read from exactly eight
  bytes, \<^verbatim>\<open>struct.error\<close> otherwise. The format has no byte-order prefix, so the bytes
  are read in the host's order; the model takes little-endian, the order of the x86-64
  hosts that SGX, and with it the simulator, runs on.
\<close>

definition unpack_Q :: "bytes \<Rightarrow> error + nat" where
  "unpack_Q b =
     (if length b \<noteq> 8 then Inl StructError
      else Inr (foldr (\<lambda>c n. of_char c + 256 * n) b 0))"

text \<open>\<^verbatim>\<open>math.log\<close>: a \<^verbatim>\<open>ValueError\<close> (math domain error) outside the positive reals.\<close>

definition math_log :: "real \<Rightarrow> error + real" where
  "math_log x = (if x \<le> 0 then Inl (ValueError MathDomainError) else Inr (ln x))"

text \<open>Line 476: \<^verbatim>\<open>tagd = float(struct.unpack('Q', tag[-8:])[0]) / (2**64 - 1)\<close>.\<close>

definition tagd :: "bytes \<Rightarrow> error + real" where
  "tagd tag =
     (case unpack_Q (last8 tag) of
        Inl e \<Rightarrow> Inl e
      | Inr n \<Rightarrow> Inr (real n / (2 ^ 64 - 1)))"

text \<open>
  Modelled from the spec: the constructor of \<^verbatim>\<open>EnclaveWaitTimer\<close> (module
  \<^verbatim>\<open>enclave_wait_timer\<close>, not part of the file). It stores the four arguments, stamps
  \<open>request_time\<close> with the wall clock and leaves the signature unset.
\<close>

definition EnclaveWaitTimer :: "string \<Rightarrow> real \<Rightarrow> string \<Rightarrow> real \<Rightarrow> real \<Rightarrow> wait_timer" where
  "EnclaveWaitTimer va dur pcid lm now =
     \<lparr>validator_address = va, duration = dur, previous_certificate_id = pcid,
      local_mean = lm, request_time = now, signature = None\<rparr>"

definition create_wait_timer ::
  "externals \<Rightarrow> enclave \<Rightarrow> string \<Rightarrow> string \<Rightarrow> real \<Rightarrow> real \<Rightarrow> real
     \<Rightarrow> error + (wait_timer \<times> enclave)" where
  "create_wait_timer ext cls va pcid lm mwt now =
     (case cls_poet_private_key cls of
        None \<Rightarrow> Inl (ValueError TimerNotInitialized)
      | Some key \<Rightarrow>
          (case b64decode ext (sign ext pcid (cls_seal_private_key cls)) of
             Inl e \<Rightarrow> Inl (LibraryError e)
           | Inr tag \<Rightarrow>
               (case tagd tag of
                  Inl e \<Rightarrow> Inl e
                | Inr u \<Rightarrow>
                    (case math_log u of
                       Inl e \<Rightarrow> Inl e
                     | Inr l \<Rightarrow>
                         (let timer = EnclaveWaitTimer va (mwt - lm * l) pcid lm now;
                              signed = timer\<lparr>signature :=
                                         Some (sign ext (serialize ext timer) key)\<rparr>
                          in Inr (signed, cls\<lparr>cls_active_wait_timer := Some signed\<rparr>))))))"

definition deserialize_wait_timer ::
  "externals \<Rightarrow> enclave \<Rightarrow> string \<Rightarrow> string \<Rightarrow> error + wait_timer option" where
  "deserialize_wait_timer ext cls serialized_timer sig =
     (if \<not> verify ext serialized_timer sig (cls_poet_public_key cls) then Inr None
      else (case wait_timer_from_serialized ext serialized_timer sig of
              Inl e \<Rightarrow> Inl (LibraryError e)
            | Inr timer \<Rightarrow> Inr (Some timer)))"

subsection \<open>The wait certificate\<close>

definition hexdigit :: "nat \<Rightarrow> char" where
  "hexdigit n = ''0123456789abcdef'' ! (n mod 16)"

text \<open>\<^verbatim>\<open>bytes.hex()\<close>, and with it \<^verbatim>\<open>hexdigest()\<close>: two lower-case digits a byte.\<close>

definition hex :: "bytes \<Rightarrow> string" where
  "hex b = concat (map (\<lambda>c. [hexdigit (of_char c div 16), hexdigit (of_char c mod 16)]) b)"

text \<open>
  Modelled from the spec: \<^verbatim>\<open>EnclaveWaitCertificate.wait_certificate_with_wait_timer\<close>
  (module \<^verbatim>\<open>enclave_wait_certificate\<close>, not part of the file). The certificate
  inherits the timer's fields and adds the nonce and the block hash; it is unsigned.
\<close>

definition wait_certificate_with_wait_timer ::
  "wait_timer \<Rightarrow> string \<Rightarrow> string \<Rightarrow> wait_certificate" where
  "wait_certificate_with_wait_timer timer n bh =
     \<lparr>validator_address = validator_address timer, duration = duration timer,
      previous_certificate_id = previous_certificate_id timer,
      local_mean = local_mean timer, request_time = request_time timer,
      signature = None, nonce = n, block_hash = bh\<rparr>"

definition opt_str :: "string option \<Rightarrow> pyval" where
  "opt_str x = (case x of None \<Rightarrow> PNone | Some s \<Rightarrow> PStr s)"

text \<open>
  \<open>now\<close> is \<^verbatim>\<open>time.time()\<close> and \<open>utcnow\<close> is
  \<^verbatim>\<open>datetime.datetime.utcnow().isoformat()\<close>.
\<close>

definition create_wait_certificate ::
  "externals \<Rightarrow> enclave \<Rightarrow> wait_timer option \<Rightarrow> string \<Rightarrow> real \<Rightarrow> string
     \<Rightarrow> error + (wait_certificate \<times> enclave)" where
  "create_wait_certificate ext cls wait_timer bh now utcnow =
     (case cls_poet_private_key cls of
        None \<Rightarrow> Inl (ValueError CertificateNotInitialized)
      | Some key \<Rightarrow>
          (case cls_active_wait_timer cls of
             None \<Rightarrow> Inl (ValueError NoActiveWaitTimer)
           | Some active \<Rightarrow>
               if (case wait_timer of
                     None \<Rightarrow> True
                   | Some wt \<Rightarrow> signature active \<noteq> Some (sign ext (serialize ext wt) key))
               then Inl (ValueError NotCurrentWaitTimer)
               else
                 (let is_not_genesis_block =
                        (previous_certificate_id active \<noteq> NULL_BLOCK_IDENTIFIER ext);
                      expire_time = request_time active + duration active
                  in if is_not_genesis_block \<and> now < expire_time
                     then Inl (ValueError TimerNotExpired)
                     else
                       (let time_out_time =
                              request_time active + duration active + TIMER_TIMEOUT_PERIOD
                        in if is_not_genesis_block \<and> time_out_time < now
                           then Inl (ValueError TimerTimedOut)
                           else
                             (let random_string =
                                    dict2json ext
                                      (PDict [(''wait_timer_signature'', opt_str (signature active)),
                                              (''now'', PStr utcnow)]);
                                  n = hex (sha256 ext random_string);
                                  cert = wait_certificate_with_wait_timer active n bh;
                                  signed = cert\<lparr>signature :=
                                             Some (sign ext (serialize_certificate ext cert) key)\<rparr>
                              in Inr (signed, cls\<lparr>cls_active_wait_timer := None\<rparr>))))))"

subsection \<open>Signup information\<close>

text \<open>\<^verbatim>\<open>d.get(k)\<close>: the value, \<^verbatim>\<open>None\<close> for a missing key, \<^verbatim>\<open>AttributeError\<close> off a dict.\<close>

definition py_get :: "pyval \<Rightarrow> string \<Rightarrow> error + pyval" where
  "py_get v k =
     (case v of
        PDict kvs \<Rightarrow> Inr (case map_of kvs k of None \<Rightarrow> PNone | Some x \<Rightarrow> x)
      | _ \<Rightarrow> Inl AttributeError)"

text \<open>A \<^verbatim>\<open>str\<close> method (\<^verbatim>\<open>upper\<close>, \<^verbatim>\<open>encode\<close>) called on a value.\<close>

definition as_str :: "pyval \<Rightarrow> error + string" where
  "as_str v = (case v of PStr s \<Rightarrow> Inr s | _ \<Rightarrow> Inl AttributeError)"

text \<open>\<^verbatim>\<open>str(v)\<close>; the text of numbers and containers is the library's.\<close>

definition py_str :: "externals \<Rightarrow> pyval \<Rightarrow> string" where
  "py_str ext v =
     (case v of
        PNone \<Rightarrow> ''None''
      | PStr s \<Rightarrow> s
      | PBool b \<Rightarrow> (if b then ''True'' else ''False'')
      | _ \<Rightarrow> str_repr ext v)"

definition unseal_signup_data ::
  "externals \<Rightarrow> enclave \<Rightarrow> bytes \<Rightarrow> error + (pyval \<times> enclave)" where
  "unseal_signup_data ext cls sealed =
     (case b64decode ext sealed of
        Inl e \<Rightarrow> Inl (LibraryError e)
      | Inr raw \<Rightarrow>
          (case decode ext raw of
             Inl e \<Rightarrow> Inl (LibraryError e)
           | Inr text \<Rightarrow>
               (case json2dict ext text of
                  Inl e \<Rightarrow> Inl (LibraryError e)
                | Inr signup_data \<Rightarrow>
                    (case py_get signup_data ''poet_public_key'' of
                       Inl e \<Rightarrow> Inl e
                     | Inr pub \<Rightarrow>
                         (case py_get signup_data ''poet_private_key'' of
                            Inl e \<Rightarrow> Inl e
                          | Inr priv \<Rightarrow>
                              Inr (pub,
                                   cls\<lparr>cls_poet_public_key := Some (py_str ext pub),
                                       cls_poet_private_key := Some (py_str ext priv),
                                       cls_active_wait_timer := None\<rparr>))))))"

definition hexval :: "char \<Rightarrow> nat" where
  "hexval c = length (takeWhile (\<lambda>x. x \<noteq> c) ''0123456789abcdef'')"

text \<open>\<^verbatim>\<open>bytes.fromhex\<close> on the lower-case literals of the class body.\<close>

fun fromhex :: "string \<Rightarrow> bytes" where
  "fromhex (a # b # r) = char_of (16 * hexval a + hexval b) # fromhex r"
| "fromhex _ = []"

definition VALID_BASENAME :: bytes where
  "VALID_BASENAME =
     fromhex (''b785c58b77152cbe7fd55ee3851c4990'' @ ''00000000000000000000000000000000'')"

definition VALID_ENCLAVE_MEASUREMENT :: bytes where
  "VALID_ENCLAVE_MEASUREMENT =
     fromhex (''c99f21955e38dbb03d2ca838d3af6e43'' @ ''ef438926ed02db4cc729380c8c7a174e'')"

text \<open>
  Modelled from the spec: \<^verbatim>\<open>sgx_structs.SgxReportData.STRUCT_SIZE\<close> (module
  \<^verbatim>\<open>sgx_structs\<close>, not part of the file): the report data is 64 bytes on the wire.
\<close>

definition SgxReportData_STRUCT_SIZE :: nat where
  "SgxReportData_STRUCT_SIZE = 64"

text \<open>
  The three values \<^verbatim>\<open>create_signup_info\<close> builds for the PoET public key \<open>ppk\<close>: the
  SGX quote (lines 171 to 191), the verification report (lines 195 to 216) and the proof
  data (lines 220 to 233). \<^verbatim>\<open>b64encode(...).decode()\<close> is the identity on base64 text,
  which is ASCII.
\<close>

definition signup_quote :: "externals \<Rightarrow> string \<Rightarrow> string \<Rightarrow> sgx_quote" where
  "signup_quote ext opkh ppk =
     (let sgx_basename = \<lparr>name = VALID_BASENAME\<rparr>;
          sgx_measurement = \<lparr>m = VALID_ENCLAVE_MEASUREMENT\<rparr>;
          hash_input = upper ext opkh @ upper ext ppk;
          sgx_report_data = \<lparr>d = sha256 ext hash_input\<rparr>;
          sgx_report_body = \<lparr>mr_enclave = sgx_measurement, report_data = sgx_report_data\<rparr>
      in \<lparr>basename = sgx_basename, report_body = sgx_report_body\<rparr>)"

definition signup_verification_report ::
  "externals \<Rightarrow> string \<Rightarrow> string \<Rightarrow> string \<Rightarrow> string \<Rightarrow> pyval" where
  "signup_verification_report ext opkh ppk n timestamp =
     (let pse_manifest = b64encode ext opkh
      in PDict
           [(''epidPseudonym'', PStr opkh),
            (''id'', PStr (b64encode ext (hex (sha256 ext timestamp)))),
            (''isvEnclaveQuoteStatus'', PStr ''OK''),
            (''isvEnclaveQuoteBody'',
               PStr (b64encode ext (serialize_to_bytes ext (signup_quote ext opkh ppk)))),
            (''pseManifestStatus'', PStr ''OK''),
            (''pseManifestHash'', PStr (b64encode ext (hex (sha256 ext pse_manifest)))),
            (''nonce'', PStr n),
            (''timestamp'', PStr timestamp)])"

definition signup_proof_data_dict ::
  "externals \<Rightarrow> string \<Rightarrow> string \<Rightarrow> string \<Rightarrow> string \<Rightarrow> pyval" where
  "signup_proof_data_dict ext opkh ppk n timestamp =
     (let pse_manifest = b64encode ext opkh;
          verification_report_json =
            dict2json ext (signup_verification_report ext opkh ppk n timestamp);
          sig = report_sign ext verification_report_json
      in PDict
           [(''evidence_payload'', PDict [(''pse_manifest'', PStr pse_manifest)]),
            (''verification_report'', PStr verification_report_json),
            (''signature'', PStr (b64encode ext sig))])"

text \<open>
  \<open>privkey\<close> is the key \<^verbatim>\<open>signing.generate_privkey()\<close> draws and \<open>timestamp\<close> is
  \<^verbatim>\<open>datetime.datetime.now().isoformat()\<close>.
\<close>

definition create_signup_info ::
  "externals \<Rightarrow> enclave \<Rightarrow> string \<Rightarrow> string \<Rightarrow> string \<Rightarrow> string
     \<Rightarrow> signup_info \<times> enclave" where
  "create_signup_info ext cls opkh n privkey timestamp =
     (let ppk = generate_pubkey ext privkey;
          signup_data = PDict [(''poet_public_key'', PStr ppk),
                               (''poet_private_key'', PStr privkey)];
          sealed = b64encode ext (dict2json ext signup_data);
          proof = dict2json ext (signup_proof_data_dict ext opkh ppk n timestamp)
      in (\<lparr>poet_public_key = ppk, proof_data = proof, anti_sybil_id = opkh,
           sealed_signup_data = sealed\<rparr>,
          cls\<lparr>cls_poet_public_key := Some ppk, cls_poet_private_key := Some privkey,
              cls_active_wait_timer := None\<rparr>))"

text \<open>Sequencing: the first error ends the run, as a raised exception does.\<close>

definition on_ok :: "error + 'a \<Rightarrow> ('a \<Rightarrow> error + 'b) \<Rightarrow> error + 'b" where
  "on_ok r f = (case r of Inl e \<Rightarrow> Inl e | Inr x \<Rightarrow> f x)"

text \<open>The result of an imported function, its error passed on.\<close>

definition lib :: "library_error + 'a \<Rightarrow> error + 'a" where
  "lib r = (case r of Inl e \<Rightarrow> Inl (LibraryError e) | Inr x \<Rightarrow> Inr x)"

definition is_substring :: "string \<Rightarrow> string \<Rightarrow> bool" where
  "is_substring x s = list_ex (\<lambda>i. take (length x) (drop i s) = x) [0..<Suc (length s)]"

text \<open>
  \<^verbatim>\<open>k in v\<close>: a key of a dict, an element of a list, a substring of a string, and
  \<^verbatim>\<open>TypeError\<close> on a value that is not iterable.
\<close>

definition py_contains :: "pyval \<Rightarrow> string \<Rightarrow> error + bool" where
  "py_contains v k =
     (case v of
        PDict kvs \<Rightarrow> Inr (map_of kvs k \<noteq> None)
      | PList xs \<Rightarrow> Inr (PStr k \<in> set xs)
      | PStr s \<Rightarrow> Inr (is_substring k s)
      | _ \<Rightarrow> Inl TypeError)"

text \<open>\<^verbatim>\<open>base64.b64decode(v)\<close> on a JSON value: \<^verbatim>\<open>TypeError\<close> unless it is a string.\<close>

definition b64decode_val :: "externals \<Rightarrow> pyval \<Rightarrow> error + bytes" where
  "b64decode_val ext v = (case v of PStr s \<Rightarrow> lib (b64decode ext s) | _ \<Rightarrow> Inl TypeError)"

text \<open>
  \<^verbatim>\<open>verify_signup_info\<close>, lines 282 to 395: the checks of the proof data and of the
  verification report, up to the parsed enclave quote.
\<close>

definition verify_signup_info_report :: "externals \<Rightarrow> signup_info \<Rightarrow> error + sgx_quote" where
  "verify_signup_info_report ext si =
     on_ok (lib (json2dict ext (proof_data si))) (\<lambda>proof_data_dict.
     on_ok (py_get proof_data_dict ''verification_report'') (\<lambda>verification_report.
     if verification_report = PNone then Inl (ValueError VerificationReportMissing) else
     on_ok (py_get proof_data_dict ''signature'') (\<lambda>sig.
     if sig = PNone then Inl (ValueError SignatureMissing) else
     on_ok (as_str sig) (\<lambda>sig_text.
     on_ok (lib (b64decode ext sig_text)) (\<lambda>sig_bytes.
     on_ok (as_str verification_report) (\<lambda>report_text.
     if \<not> report_verify ext sig_bytes report_text then Inl (ValueError SignatureInvalid) else
     on_ok (lib (json2dict ext report_text)) (\<lambda>verification_report_dict.
     on_ok (py_contains verification_report_dict ''id'') (\<lambda>has_id.
     if \<not> has_id then Inl (ValueError NoID) else
     on_ok (py_get verification_report_dict ''epidPseudonym'') (\<lambda>epid_pseudonym.
     if epid_pseudonym = PNone then Inl (ValueError NoEpidPseudonym) else
     if epid_pseudonym \<noteq> PStr (anti_sybil_id si) then Inl (ValueError AntiSybilMismatch) else
     on_ok (py_get verification_report_dict ''pseManifestStatus'') (\<lambda>pse_manifest_status.
     if pse_manifest_status = PNone then Inl (ValueError NoPseManifestStatus) else
     on_ok (as_str pse_manifest_status) (\<lambda>status_text.
     if upper ext status_text \<noteq> ''OK'' then Inl (ValueError PseManifestStatusNotOK) else
     on_ok (py_get verification_report_dict ''pseManifestHash'') (\<lambda>pse_manifest_hash.
     if pse_manifest_hash = PNone then Inl (ValueError NoPseManifestHash) else
     on_ok (py_get proof_data_dict ''evidence_payload'') (\<lambda>evidence_payload.
     if evidence_payload = PNone then Inl (ValueError EvidencePayloadMissing) else
     on_ok (py_get evidence_payload ''pse_manifest'') (\<lambda>pse_manifest.
     if pse_manifest = PNone then Inl (ValueError NoPseManifest) else
     on_ok (as_str pse_manifest) (\<lambda>pse_manifest_text.
     let expected_pse_manifest_hash = b64encode ext (hex (sha256 ext pse_manifest_text)) in
     on_ok (as_str pse_manifest_hash) (\<lambda>hash_text.
     if upper ext hash_text \<noteq> upper ext expected_pse_manifest_hash
     then Inl (ValueError PseManifestHashMismatch) else
     on_ok (py_get verification_report_dict ''isvEnclaveQuoteStatus'') (\<lambda>enclave_quote_status.
     if enclave_quote_status = PNone then Inl (ValueError NoEnclaveQuoteStatus) else
     on_ok (as_str enclave_quote_status) (\<lambda>quote_status_text.
     if upper ext quote_status_text \<noteq> ''OK'' then Inl (ValueError EnclaveQuoteStatusNotOK) else
     on_ok (py_get verification_report_dict ''isvEnclaveQuoteBody'') (\<lambda>enclave_quote.
     if enclave_quote = PNone then Inl (ValueError NoEnclaveQuote) else
     on_ok (b64decode_val ext enclave_quote) (\<lambda>quote_bytes.
     lib (parse_from_bytes ext quote_bytes)))))))))))))))))))))"

text \<open>Lines 404 to 412: the report data the verifier expects.\<close>

definition expected_report_data :: "externals \<Rightarrow> string \<Rightarrow> string \<Rightarrow> bytes" where
  "expected_report_data ext opkh ppk =
     (let hash_input = upper ext opkh @ upper ext ppk;
          hash_value = sha256 ext hash_input
      in hash_value @ replicate (SgxReportData_STRUCT_SIZE - length hash_value) (CHR 0x00))"

text \<open>
  Lines 404 to 449: the three comparisons on the parsed quote.
  \<^verbatim>\<open>cls._poet_public_key.upper()\<close> is an \<^verbatim>\<open>AttributeError\<close> while the key is unset.
\<close>

definition verify_signup_info_quote ::
  "externals \<Rightarrow> enclave \<Rightarrow> sgx_quote \<Rightarrow> string \<Rightarrow> error + unit" where
  "verify_signup_info_quote ext cls q opkh =
     (case cls_poet_public_key cls of
        None \<Rightarrow> Inl AttributeError
      | Some ppk \<Rightarrow>
          if d (report_data (report_body q)) \<noteq> expected_report_data ext opkh ppk
          then Inl (ValueError ReportDataMismatch)
          else if m (mr_enclave (report_body q)) \<noteq> VALID_ENCLAVE_MEASUREMENT
          then Inl (ValueError MeasurementMismatch)
          else if name (basename q) \<noteq> VALID_BASENAME
          then Inl (ValueError BasenameMismatch)
          else Inr ())"

definition verify_signup_info ::
  "externals \<Rightarrow> enclave \<Rightarrow> signup_info \<Rightarrow> string \<Rightarrow> error + unit" where
  "verify_signup_info ext cls si opkh =
     on_ok (verify_signup_info_report ext si) (\<lambda>q. verify_signup_info_quote ext cls q opkh)"

text \<open>
  Modelled from the spec: what \<^verbatim>\<open>SgxQuote.parse_from_bytes\<close> reads back from the bytes
  of a quote (module \<^verbatim>\<open>sgx_structs\<close>, not part of the file). Parsing is symmetric to
  serializing; on the wire the basename and the measurement are 32 bytes and the report
  data is 64 bytes, the unused tail zero-filled.
\<close>

definition zero_filled :: "sgx_quote \<Rightarrow> sgx_quote" where
  "zero_filled q =
     \<lparr>basename = \<lparr>name = name (basename q) @ replicate (32 - length (name (basename q))) (CHR 0x00)\<rparr>,
      report_body =
        \<lparr>mr_enclave = \<lparr>m = m (mr_enclave (report_body q)) @
                 replicate (32 - length (m (mr_enclave (report_body q)))) (CHR 0x00)\<rparr>,
         report_data = \<lparr>d = d (report_data (report_body q)) @
                 replicate (SgxReportData_STRUCT_SIZE - length (d (report_data (report_body q))))
                   (CHR 0x00)\<rparr>\<rparr>\<rparr>"

text \<open>
  What one signup needs of the imported functions: \<^verbatim>\<open>json2dict\<close> reads back the two
  documents \<^verbatim>\<open>dict2json\<close> wrote, \<^verbatim>\<open>b64decode\<close> reads back the signature and the
  quote \<^verbatim>\<open>b64encode\<close> wrote, the report public key verifies what the report private
  key signed, \<^verbatim>\<open>'OK'\<close> is in upper case, and the quote parses as laid out above.
\<close>

definition signup_contract :: "externals \<Rightarrow> string \<Rightarrow> string \<Rightarrow> string \<Rightarrow> string \<Rightarrow> bool" where
  "signup_contract ext opkh ppk n timestamp \<longleftrightarrow>
     json2dict ext (dict2json ext (signup_proof_data_dict ext opkh ppk n timestamp))
       = Inr (signup_proof_data_dict ext opkh ppk n timestamp) \<and>
     json2dict ext (dict2json ext (signup_verification_report ext opkh ppk n timestamp))
       = Inr (signup_verification_report ext opkh ppk n timestamp) \<and>
     b64decode ext (b64encode ext
         (report_sign ext (dict2json ext (signup_verification_report ext opkh ppk n timestamp))))
       = Inr (report_sign ext (dict2json ext (signup_verification_report ext opkh ppk n timestamp))) \<and>
     b64decode ext (b64encode ext (serialize_to_bytes ext (signup_quote ext opkh ppk)))
       = Inr (serialize_to_bytes ext (signup_quote ext opkh ppk)) \<and>
     report_verify ext
         (report_sign ext (dict2json ext (signup_verification_report ext opkh ppk n timestamp)))
         (dict2json ext (signup_verification_report ext opkh ppk n timestamp)) \<and>
     upper ext ''OK'' = ''OK'' \<and>
     parse_from_bytes ext (serialize_to_bytes ext (signup_quote ext opkh ppk))
       = Inr (zero_filled (signup_quote ext opkh ppk))"

subsection \<open>The claims' own words\<close>

text \<open>
  The little-endian unsigned 64-bit integer formed from eight bytes, as the specification
  words it: byte \<open>i\<close> weighs \<open>256 ^ i\<close>.
\<close>

definition little_endian_u64 :: "bytes \<Rightarrow> nat" where
  "little_endian_u64 b = (\<Sum>i<8. of_char (b ! i) * 256 ^ i)"

subsection \<open>An instance of the imported functions\<close>

text \<open>
  A small, executable stand-in for the imported functions, on which the operations can be
  run: base64 is the identity coding, a digest is the first 32 bytes of the zero-padded
  message, a signature is the digest of the key followed by the digest of the message,
  the JSON helpers print and read strings, objects and \<^verbatim>\<open>null\<close>, a quote is its three
  fields padded to 32, 32 and 64 bytes, and the serialized timer and certificate leave the
  numbers out.
\<close>

definition sim_sha256 :: "bytes \<Rightarrow> bytes" where
  "sim_sha256 b = take 32 (b @ replicate 32 (CHR 0x00))"

definition sim_sign :: "string \<Rightarrow> string \<Rightarrow> string" where
  "sim_sign msg key = sim_sha256 key @ sim_sha256 msg"

definition sim_generate_pubkey :: "string \<Rightarrow> string" where
  "sim_generate_pubkey privkey = ''pub:'' @ privkey"

definition sim_verify :: "string \<Rightarrow> string \<Rightarrow> string option \<Rightarrow> bool" where
  "sim_verify msg sig pub =
     (case pub of None \<Rightarrow> False | Some p \<Rightarrow> sig = sim_sign msg (drop 4 p))"

definition sim_upper_char :: "char \<Rightarrow> char" where
  "sim_upper_char c =
     (case map_of (zip ''abcdefghijklmnopqrstuvwxyz'' ''ABCDEFGHIJKLMNOPQRSTUVWXYZ'') c of
        None \<Rightarrow> c
      | Some u \<Rightarrow> u)"

fun sim_quote :: "string \<Rightarrow> string" where
  "sim_quote [] = [CHR 0x22]"
| "sim_quote (c # cs) =
     (if c = CHR 0x22 \<or> c = CHR 0x5C then CHR 0x5C # c # sim_quote cs else c # sim_quote cs)"

fun sim_dict2json :: "pyval \<Rightarrow> string"
  and sim_members :: "(string \<times> pyval) list \<Rightarrow> string" where
  "sim_dict2json (PStr s) = CHR 0x22 # sim_quote s"
| "sim_dict2json (PDict kvs) = CHR ''{'' # sim_members kvs"
| "sim_dict2json _ = ''null''"
| "sim_members [] = ''}''"
| "sim_members ((k, v) # kvs) =
     CHR 0x22 # sim_quote k @ CHR '':'' # sim_dict2json v @
     (if kvs = [] then ''}'' else CHR '','' # sim_members kvs)"

fun sim_string :: "string \<Rightarrow> string \<Rightarrow> (string \<times> string) option" where
  "sim_string acc [] = None"
| "sim_string acc (c # cs) =
     (if c = CHR 0x22 then Some (rev acc, cs)
      else if c = CHR 0x5C
      then (case cs of [] \<Rightarrow> None | e # r \<Rightarrow> sim_string (e # acc) r)
      else sim_string (c # acc) cs)"

fun sim_value :: "string \<Rightarrow> string \<Rightarrow> (pyval \<times> string) option"
  and sim_pairs :: "string \<Rightarrow> string \<Rightarrow> ((string \<times> pyval) list \<times> string) option" where
  "sim_value [] s = None"
| "sim_value (x # fuel) s =
     (case s of
        [] \<Rightarrow> None
      | c # r \<Rightarrow>
          if c = CHR 0x22
          then (case sim_string [] r of None \<Rightarrow> None | Some (t, r') \<Rightarrow> Some (PStr t, r'))
          else if c = CHR ''{''
          then (case sim_pairs fuel r of None \<Rightarrow> None | Some (kvs, r') \<Rightarrow> Some (PDict kvs, r'))
          else if take 4 s = ''null'' then Some (PNone, drop 4 s)
          else None)"
| "sim_pairs [] s = None"
| "sim_pairs (x # fuel) s =
     (case s of
        [] \<Rightarrow> None
      | c # r \<Rightarrow>
          if c = CHR ''}'' then Some ([], r)
          else if c \<noteq> CHR 0x22 then None
          else (case sim_string [] r of
                  None \<Rightarrow> None
                | Some (k, r1) \<Rightarrow>
                    (case r1 of
                       [] \<Rightarrow> None
                     | c1 # r2 \<Rightarrow>
                         if c1 \<noteq> CHR '':'' then None
                         else (case sim_value fuel r2 of
                                 None \<Rightarrow> None
                               | Some (v, r3) \<Rightarrow>
                                   (case r3 of
                                      [] \<Rightarrow> None
                                    | c3 # r4 \<Rightarrow>
                                        if c3 = CHR ''}'' then Some ([(k, v)], r4)
                                        else if c3 = CHR '',''
                                        then (case sim_pairs fuel r4 of
                                                None \<Rightarrow> None
                                              | Some (kvs, r5) \<Rightarrow> Some ((k, v) # kvs, r5))
                                        else None)))))"

definition sim_json2dict :: "string \<Rightarrow> library_error + pyval" where
  "sim_json2dict s =
     (case sim_value s s of
        Some (v, []) \<Rightarrow> Inr v
      | _ \<Rightarrow> Inl JSONDecodeError)"

definition sim_pad :: "nat \<Rightarrow> bytes \<Rightarrow> bytes" where
  "sim_pad n b = take n (b @ replicate n (CHR 0x00))"

definition sim_serialize_to_bytes :: "sgx_quote \<Rightarrow> bytes" where
  "sim_serialize_to_bytes q =
     sim_pad 32 (name (basename q)) @ sim_pad 32 (m (mr_enclave (report_body q))) @
     sim_pad 64 (d (report_data (report_body q)))"

definition sim_parse_from_bytes :: "bytes \<Rightarrow> library_error + sgx_quote" where
  "sim_parse_from_bytes b =
     (if length b < 128 then Inl ParseError
      else Inr \<lparr>basename = \<lparr>name = take 32 b\<rparr>,
                report_body = \<lparr>mr_enclave = \<lparr>m = take 32 (drop 32 b)\<rparr>,
                                report_data = \<lparr>d = take 64 (drop 64 b)\<rparr>\<rparr>\<rparr>)"

definition sim_serialize :: "wait_timer \<Rightarrow> string" where
  "sim_serialize t =
     sim_dict2json (PDict [(''validator_address'', PStr (validator_address t)),
                           (''previous_certificate_id'', PStr (previous_certificate_id t))])"

definition sim_wait_timer_from_serialized ::
  "string \<Rightarrow> string \<Rightarrow> library_error + wait_timer" where
  "sim_wait_timer_from_serialized s sig =
     (case sim_json2dict s of
        Inr (PDict [(k1, PStr va), (k2, PStr pcid)]) \<Rightarrow>
          Inr \<lparr>validator_address = va, duration = 0, previous_certificate_id = pcid,
               local_mean = 0, request_time = 0, signature = Some sig\<rparr>
      | _ \<Rightarrow> Inl ParseError)"

definition sim_serialize_certificate :: "wait_certificate \<Rightarrow> string" where
  "sim_serialize_certificate c =
     sim_dict2json (PDict [(''validator_address'', PStr (validator_address c)),
                           (''previous_certificate_id'', PStr (previous_certificate_id c)),
                           (''nonce'', PStr (nonce c)),
                           (''block_hash'', PStr (block_hash c))])"

definition sim :: externals where
  "sim = \<lparr>sign = sim_sign, verify = sim_verify, generate_pubkey = sim_generate_pubkey,
          b64encode = (\<lambda>b. b), b64decode = Inr, sha256 = sim_sha256,
          report_sign = sim_sha256, report_verify = (\<lambda>sig msg. sig = sim_sha256 msg),
          dict2json = sim_dict2json, json2dict = sim_json2dict,
          decode = Inr, upper = map sim_upper_char, str_repr = (\<lambda>v. ''?''),
          serialize_to_bytes = sim_serialize_to_bytes,
          parse_from_bytes = sim_parse_from_bytes,
          serialize = sim_serialize,
          wait_timer_from_serialized = sim_wait_timer_from_serialized,
          serialize_certificate = sim_serialize_certificate,
          NULL_BLOCK_IDENTIFIER = ''0000000000000000''\<rparr>"

text \<open>
  An enclave after signup, an enclave before signup, and the first one holding a timer
  that lasts 5 seconds.
\<close>

definition sim_cls :: enclave where
  "sim_cls = \<lparr>cls_seal_private_key = ''seal'', cls_anti_sybil_id = None,
              cls_poet_public_key = Some ''pub:k1'', cls_poet_private_key = Some ''k1'',
              cls_active_wait_timer = None\<rparr>"

definition sim_cls_fresh :: enclave where
  "sim_cls_fresh = \<lparr>cls_seal_private_key = ''seal'', cls_anti_sybil_id = None,
                    cls_poet_public_key = None, cls_poet_private_key = None,
                    cls_active_wait_timer = None\<rparr>"

text \<open>The enclave of another validator, with a PoET key pair of its own.\<close>

definition sim_cls_other :: enclave where
  "sim_cls_other = sim_cls\<lparr>cls_poet_public_key := Some ''pub:k2'',
                           cls_poet_private_key := Some ''k2''\<rparr>"

definition sim_timer :: "string \<Rightarrow> wait_timer" where
  "sim_timer pcid =
     (let timer = EnclaveWaitTimer ''validator'' 5 pcid 5 100
      in timer\<lparr>signature := Some (sim_sign (sim_serialize timer) ''k1'')\<rparr>)"

definition sim_cls_timer :: "string \<Rightarrow> enclave" where
  "sim_cls_timer pcid = sim_cls\<lparr>cls_active_wait_timer := Some (sim_timer pcid)\<rparr>"

section \<open>Properties\<close>

subsection \<open>The draw of the wait timer\<close>

lemma foldr_little_endian:
  "foldr (\<lambda>c n. of_char c + 256 * n) b (0::nat) = (\<Sum>i<length b. of_char (b ! i) * 256 ^ i)"
proof (induction b)
  case Nil
  show ?case by simp
next
  case (Cons c cs)
  have "(\<Sum>i<length (c # cs). of_char ((c # cs) ! i) * 256 ^ i)
        = (of_char c :: nat) + (\<Sum>i<length cs. of_char (cs ! i) * 256 ^ Suc i)"
    by (simp add: sum.lessThan_Suc_shift del: sum.lessThan_Suc)
  also have "\<dots> = of_char c + 256 * (\<Sum>i<length cs. of_char (cs ! i) * 256 ^ i)"
    by (simp add: sum_distrib_left mult.assoc mult.left_commute)
  finally show ?case using Cons.IH by simp
qed

lemma foldr_little_endian_bound:
  "foldr (\<lambda>c n. of_char c + 256 * n) b (0::nat) < 256 ^ length b"
proof (induction b)
  case Nil
  show ?case by simp
next
  case (Cons c cs)
  have "(of_char c :: nat) < 256" by simp
  then have "of_char c + 256 * foldr (\<lambda>c n. of_char c + 256 * n) cs (0::nat)
        < 256 + 256 * foldr (\<lambda>c n. of_char c + 256 * n) cs 0"
    by simp
  also have "\<dots> = 256 * Suc (foldr (\<lambda>c n. of_char c + 256 * n) cs 0)" by simp
  also have "\<dots> \<le> 256 * 256 ^ length cs"
    using Cons.IH by (simp only: mult_le_cancel1 Suc_le_eq) simp
  finally show ?case by simp
qed

lemma unpack_Q_Inr:
  "unpack_Q b = Inr n \<longleftrightarrow> length b = 8 \<and> n = little_endian_u64 b"
  by (auto simp: unpack_Q_def little_endian_u64_def foldr_little_endian)

lemma length_last8: "length (last8 tag) = min 8 (length tag)"
  by (simp add: last8_def)

lemma little_endian_u64_bound:
  assumes "length b = 8"
  shows "little_endian_u64 b \<le> 2 ^ 64 - 1"
proof -
  have "little_endian_u64 b = foldr (\<lambda>c n. of_char c + 256 * n) b 0"
    using assms by (simp add: little_endian_u64_def foldr_little_endian)
  also have "\<dots> < 256 ^ 8"
    using foldr_little_endian_bound [of b] assms by simp
  finally show ?thesis by simp
qed

lemma tagd_eq:
  "tagd tag =
     (if length tag < 8 then Inl StructError
      else Inr (real (little_endian_u64 (last8 tag)) / (2 ^ 64 - 1)))"
proof (cases "length tag < 8")
  case True
  then have "length (last8 tag) \<noteq> 8" by (simp add: length_last8)
  then have "unpack_Q (last8 tag) = Inl StructError" by (simp add: unpack_Q_def)
  with True show ?thesis by (simp add: tagd_def)
next
  case False
  then have "length (last8 tag) = 8" by (simp add: length_last8)
  then have "unpack_Q (last8 tag) = Inr (little_endian_u64 (last8 tag))"
    by (simp add: unpack_Q_Inr)
  with False show ?thesis by (simp add: tagd_def)
qed

lemma tagd_Inr:
  "tagd tag = Inr u \<longleftrightarrow>
     8 \<le> length tag \<and> u = real (little_endian_u64 (last8 tag)) / (2 ^ 64 - 1)"
  by (auto simp only: tagd_eq split: if_splits)

lemma tagd_Inl:
  "tagd tag = Inl e \<longleftrightarrow> length tag < 8 \<and> e = StructError"
  by (auto simp only: tagd_eq split: if_splits)

lemma tagd_range:
  assumes "tagd tag = Inr u"
  shows "0 \<le> u" and "u \<le> 1" and "0 < u \<longleftrightarrow> little_endian_u64 (last8 tag) \<noteq> 0"
proof -
  from assms have len: "length (last8 tag) = 8"
    and u: "u = real (little_endian_u64 (last8 tag)) / (2 ^ 64 - 1)"
    by (simp_all add: tagd_Inr length_last8)
  show "0 \<le> u" by (simp add: u)
  have "real (little_endian_u64 (last8 tag)) \<le> real (2 ^ 64 - 1)"
    using little_endian_u64_bound [OF len] by (simp only: of_nat_le_iff)
  then show "u \<le> 1" by (simp add: u)
  show "0 < u \<longleftrightarrow> little_endian_u64 (last8 tag) \<noteq> 0" by (simp add: u)
qed

lemma math_log_tagd:
  "math_log (real n / (2 ^ 64 - 1)) =
     (if n = 0 then Inl (ValueError MathDomainError) else Inr (ln (real n / (2 ^ 64 - 1))))"
  by (simp add: math_log_def divide_le_0_iff)

lemma create_wait_timer_eq:
  assumes "cls_poet_private_key cls = Some key"
    and "b64decode ext (sign ext pcid (cls_seal_private_key cls)) = Inr tag"
  shows "create_wait_timer ext cls va pcid lm mwt now =
     (if length tag < 8 then Inl StructError
      else if little_endian_u64 (last8 tag) = 0 then Inl (ValueError MathDomainError)
      else
        (let u = real (little_endian_u64 (last8 tag)) / (2 ^ 64 - 1);
             timer = EnclaveWaitTimer va (mwt - lm * ln u) pcid lm now;
             signed = timer\<lparr>signature := Some (sign ext (serialize ext timer) key)\<rparr>
         in Inr (signed, cls\<lparr>cls_active_wait_timer := Some signed\<rparr>)))"
proof (cases "length tag < 8")
  case True
  then have "tagd tag = Inl StructError" by (simp only: tagd_eq if_True)
  with True show ?thesis using assms by (simp add: create_wait_timer_def)
next
  case False
  define n where "n = little_endian_u64 (last8 tag)"
  define u where "u = real n / (2 ^ 64 - 1)"
  have t: "tagd tag = Inr u"
    unfolding u_def n_def using False by (simp only: tagd_eq if_False)
  have l: "math_log u = (if n = 0 then Inl (ValueError MathDomainError) else Inr (ln u))"
    unfolding u_def by (rule math_log_tagd)
  have "create_wait_timer ext cls va pcid lm mwt now =
     (if n = 0 then Inl (ValueError MathDomainError)
      else
        (let timer = EnclaveWaitTimer va (mwt - lm * ln u) pcid lm now;
             signed = timer\<lparr>signature := Some (sign ext (serialize ext timer) key)\<rparr>
         in Inr (signed, cls\<lparr>cls_active_wait_timer := Some signed\<rparr>)))"
    using assms t l by (simp add: create_wait_timer_def)
  with False show ?thesis
    unfolding n_def [symmetric] u_def [symmetric] by (simp add: Let_def)
qed

lemma sim_tag:
  "b64decode sim (sign sim pcid (cls_seal_private_key sim_cls)) = Inr (sim_sign pcid ''seal'')"
  by (simp add: sim_def sim_cls_def)

lemma sim_key: "cls_poet_private_key sim_cls = Some ''k1''"
  by (simp add: sim_cls_def)

lemma sim_last8:
  "last8 (sim_sign ''0123456789abcdef0123456789abcdef'' ''seal'') = ''89abcdef''"
  by (simp add: last8_def sim_sign_def sim_sha256_def)

lemma u64_example: "little_endian_u64 ''89abcdef'' = 7378413942531504440"
  by (simp add: little_endian_u64_def lessThan_nat_numeral lessThan_Suc)

lemma sim_tag_length: "\<not> length (sim_sign pcid ''seal'') < 8"
  by (simp add: sim_sign_def sim_sha256_def)

lemma sim_u64_nonzero:
  "little_endian_u64 (last8 (sim_sign ''0123456789abcdef0123456789abcdef'' ''seal'')) \<noteq> 0"
  by (simp add: sim_last8 u64_example)

lemma sim_timer_created:
  "\<exists>timer cls'.
     create_wait_timer sim sim_cls ''validator'' ''0123456789abcdef0123456789abcdef'' 5 1 now
       = Inr (timer, cls')"
  by (simp only: create_wait_timer_eq [OF sim_key sim_tag] sim_tag_length sim_u64_nonzero
      if_False Let_def) blast



text \<open>
  C6. For every \<open>local_mean > 0\<close>, every \<open>previous_certificate_id\<close> and every
  \<open>minimum_wait_time\<close>, a wait timer returned by \<open>create_wait_timer\<close> has
  \<open>duration \<ge> minimum_wait_time\<close>.
\<close>

theorem create_wait_timer_minimum:
  assumes "0 < lm"
    and "create_wait_timer ext cls va pcid lm mwt now = Inr (timer, cls')"
  shows "mwt \<le> duration timer"
proof -
  from assms(2) obtain tag u where t: "tagd tag = Inr u" and l: "math_log u = Inr (ln u)"
    and dur: "duration timer = mwt - lm * ln u" and pos: "0 < u"
    by (auto simp: create_wait_timer_def Let_def EnclaveWaitTimer_def math_log_def
        split: option.splits sum.splits if_splits)
  from tagd_range(2) [OF t] pos have "ln u \<le> 0" by simp
  with assms(1) have "lm * ln u \<le> 0" by (simp add: mult_le_0_iff)
  with dur show ?thesis by simp
qed

theorem create_wait_timer_minimum_witness:
  "\<exists>timer cls'.
     create_wait_timer sim sim_cls ''validator'' ''0123456789abcdef0123456789abcdef'' 5 1 100
       = Inr (timer, cls') \<and> (0::real) < 5 \<and> 1 \<le> duration timer"
proof -
  obtain timer cls' where
    r: "create_wait_timer sim sim_cls ''validator'' ''0123456789abcdef0123456789abcdef'' 5 1 100
          = Inr (timer, cls')"
    using sim_timer_created [of 100] by blast
  have "(0::real) < 5" by simp
  from create_wait_timer_minimum [OF this r] r show ?thesis by auto
qed






subsection \<open>The wait certificate\<close>

lemma create_wait_certificate_eq:
  assumes "cls_poet_private_key cls = Some key"
    and "cls_active_wait_timer cls = Some active"
    and "signature active = Some (sign ext (serialize ext wt) key)"
  shows "create_wait_certificate ext cls (Some wt) bh now utcnow =
     (if previous_certificate_id active \<noteq> NULL_BLOCK_IDENTIFIER ext \<and>
         now < request_time active + duration active
      then Inl (ValueError TimerNotExpired)
      else if previous_certificate_id active \<noteq> NULL_BLOCK_IDENTIFIER ext \<and>
         request_time active + duration active + 30 < now
      then Inl (ValueError TimerTimedOut)
      else
        (let cert = wait_certificate_with_wait_timer active
               (hex (sha256 ext (dict2json ext
                  (PDict [(''wait_timer_signature'', opt_str (signature active)),
                          (''now'', PStr utcnow)])))) bh
         in Inr (cert\<lparr>signature := Some (sign ext (serialize_certificate ext cert) key)\<rparr>,
                 cls\<lparr>cls_active_wait_timer := None\<rparr>)))"
  using assms by (simp add: create_wait_certificate_def TIMER_TIMEOUT_PERIOD_def Let_def)

lemma sim_timer_key: "cls_poet_private_key (sim_cls_timer pcid) = Some ''k1''"
  by (simp add: sim_cls_timer_def sim_cls_def)

lemma sim_timer_active: "cls_active_wait_timer (sim_cls_timer pcid) = Some (sim_timer pcid)"
  by (simp add: sim_cls_timer_def)

lemma sim_timer_current:
  "signature (sim_timer pcid) = Some (sign sim (serialize sim (sim_timer pcid)) ''k1'')"
  by (simp add: sim_timer_def sim_def Let_def sim_serialize_def EnclaveWaitTimer_def)

lemma sim_timer_fields:
  "request_time (sim_timer pcid) = 100" "duration (sim_timer pcid) = 5"
  "previous_certificate_id (sim_timer pcid) = pcid"
  by (simp_all add: sim_timer_def Let_def EnclaveWaitTimer_def)

lemma sim_null: "NULL_BLOCK_IDENTIFIER sim = ''0000000000000000''"
  by (simp add: sim_def)

text \<open>
  C2. For an active wait timer whose previous certificate id is not the null block
  identifier, and a caller that holds the current timer, \<open>create_wait_certificate\<close>
  succeeds exactly when \<open>request_time + duration \<le> now \<le> request_time + duration + 30.0\<close>,
  both bounds included. Before the window it fails with the reason "timer has not
  expired", after it with the reason "timer has timed out".
\<close>

theorem create_wait_certificate_window:
  assumes "cls_poet_private_key cls = Some key"
    and "cls_active_wait_timer cls = Some active"
    and "signature active = Some (sign ext (serialize ext wt) key)"
    and "previous_certificate_id active \<noteq> NULL_BLOCK_IDENTIFIER ext"
  shows "((\<exists>cert cls'. create_wait_certificate ext cls (Some wt) bh now utcnow = Inr (cert, cls'))
            \<longleftrightarrow> request_time active + duration active \<le> now \<and>
                now \<le> request_time active + duration active + 30.0) \<and>
         (now < request_time active + duration active \<longrightarrow>
            create_wait_certificate ext cls (Some wt) bh now utcnow
              = Inl (ValueError TimerNotExpired)) \<and>
         (request_time active + duration active + 30.0 < now \<longrightarrow>
            create_wait_certificate ext cls (Some wt) bh now utcnow
              = Inl (ValueError TimerTimedOut))"
  unfolding create_wait_certificate_eq [OF assms(1-3)] using assms(4)
  by (auto simp: Let_def)

theorem create_wait_certificate_window_witness:
  "(\<exists>cert cls'. create_wait_certificate sim (sim_cls_timer ''block-1'')
       (Some (sim_timer ''block-1'')) ''hash'' 105 ''2017-01-01T00:00:00'' = Inr (cert, cls')) \<and>
   (\<exists>cert cls'. create_wait_certificate sim (sim_cls_timer ''block-1'')
       (Some (sim_timer ''block-1'')) ''hash'' 135 ''2017-01-01T00:00:00'' = Inr (cert, cls')) \<and>
   create_wait_certificate sim (sim_cls_timer ''block-1'')
       (Some (sim_timer ''block-1'')) ''hash'' 104 ''2017-01-01T00:00:00''
     = Inl (ValueError TimerNotExpired) \<and>
   create_wait_certificate sim (sim_cls_timer ''block-1'')
       (Some (sim_timer ''block-1'')) ''hash'' 136 ''2017-01-01T00:00:00''
     = Inl (ValueError TimerTimedOut)"
proof -
  have ng: "previous_certificate_id (sim_timer ''block-1'') \<noteq> NULL_BLOCK_IDENTIFIER sim"
    by (simp add: sim_timer_fields sim_null)
  note w = create_wait_certificate_window
    [OF sim_timer_key sim_timer_active sim_timer_current ng,
      where bh = "''hash''" and utcnow = "''2017-01-01T00:00:00''"]
  from w [of 105] w [of 135] w [of 104] w [of 136] show ?thesis
    by (simp add: sim_timer_fields)
qed

text \<open>
  C3. For an active wait timer whose previous certificate id is the null block
  identifier, \<open>create_wait_certificate\<close> raises neither of the two timing errors, and its
  result is the same whatever the current time is; a caller that holds the current timer
  gets its certificate.
\<close>

theorem create_wait_certificate_genesis:
  assumes "cls_active_wait_timer cls = Some active"
    and "previous_certificate_id active = NULL_BLOCK_IDENTIFIER ext"
  shows "create_wait_certificate ext cls wait_timer bh now utcnow \<noteq> Inl (ValueError TimerNotExpired) \<and>
         create_wait_certificate ext cls wait_timer bh now utcnow \<noteq> Inl (ValueError TimerTimedOut) \<and>
         create_wait_certificate ext cls wait_timer bh now utcnow =
           create_wait_certificate ext cls wait_timer bh now' utcnow \<and>
         (\<forall>key wt. cls_poet_private_key cls = Some key \<and> wait_timer = Some wt \<and>
              signature active = Some (sign ext (serialize ext wt) key) \<longrightarrow>
            (\<exists>cert cls'. create_wait_certificate ext cls wait_timer bh now utcnow = Inr (cert, cls')))"
  using assms
  by (auto simp: create_wait_certificate_def Let_def split: option.splits)

theorem create_wait_certificate_genesis_witness:
  "(\<exists>cert cls'. create_wait_certificate sim (sim_cls_timer ''0000000000000000'')
       (Some (sim_timer ''0000000000000000'')) ''hash'' 0 ''2017-01-01T00:00:00'' = Inr (cert, cls')) \<and>
   create_wait_certificate sim (sim_cls_timer ''0000000000000000'')
       (Some (sim_timer ''0000000000000000'')) ''hash'' 0 ''2017-01-01T00:00:00''
     = create_wait_certificate sim (sim_cls_timer ''0000000000000000'')
       (Some (sim_timer ''0000000000000000'')) ''hash'' 1000 ''2017-01-01T00:00:00''"
proof -
  have g: "previous_certificate_id (sim_timer ''0000000000000000'') = NULL_BLOCK_IDENTIFIER sim"
    by (simp add: sim_timer_fields sim_null)
  from create_wait_certificate_genesis [OF sim_timer_active g,
      where wait_timer = "Some (sim_timer ''0000000000000000'')" and bh = "''hash''"
        and now = 0 and now' = 1000 and utcnow = "''2017-01-01T00:00:00''"]
    sim_timer_key [of "''0000000000000000''"] sim_timer_current [of "''0000000000000000''"]
  show ?thesis by blast
qed

subsection \<open>Reading a wait timer back\<close>

lemma sim_parse_timer:
  "sim_wait_timer_from_serialized (sim_serialize (sim_timer ''block-1'')) sig
     = Inr \<lparr>validator_address = ''validator'', duration = 0,
            previous_certificate_id = ''block-1'', local_mean = 0, request_time = 0,
            signature = Some sig\<rparr>"
  by (simp add: sim_serialize_def sim_timer_def Let_def EnclaveWaitTimer_def
      sim_wait_timer_from_serialized_def sim_json2dict_def)

text \<open>
  C9. \<open>deserialize_wait_timer\<close> verifies the signature over the serialized timer against
  the enclave's current PoET public key. When the verification fails it returns
  \<^verbatim>\<open>None\<close> and raises nothing; when it succeeds it returns the timer the parser reads
  (or the parser's error).
\<close>

theorem deserialize_wait_timer_signature:
  "(\<not> verify ext serialized_timer sig (cls_poet_public_key cls) \<longrightarrow>
      deserialize_wait_timer ext cls serialized_timer sig = Inr None) \<and>
   (verify ext serialized_timer sig (cls_poet_public_key cls) \<longrightarrow>
      (\<forall>timer. wait_timer_from_serialized ext serialized_timer sig = Inr timer \<longrightarrow>
         deserialize_wait_timer ext cls serialized_timer sig = Inr (Some timer)) \<and>
      (\<forall>e. wait_timer_from_serialized ext serialized_timer sig = Inl e \<longrightarrow>
         deserialize_wait_timer ext cls serialized_timer sig = Inl (LibraryError e)))"
  by (simp add: deserialize_wait_timer_def)

theorem deserialize_wait_timer_signature_witness:
  "deserialize_wait_timer sim sim_cls (sim_serialize (sim_timer ''block-1'')) ''forged''
     = Inr None \<and>
   deserialize_wait_timer sim sim_cls (sim_serialize (sim_timer ''block-1''))
       (sim_sign (sim_serialize (sim_timer ''block-1'')) ''k1'')
     = Inr (Some \<lparr>validator_address = ''validator'', duration = 0,
                  previous_certificate_id = ''block-1'', local_mean = 0, request_time = 0,
                  signature = Some (sim_sign (sim_serialize (sim_timer ''block-1'')) ''k1'')\<rparr>)"
proof -
  have bad: "\<not> verify sim (sim_serialize (sim_timer ''block-1'')) ''forged''
               (cls_poet_public_key sim_cls)"
    by (simp add: sim_def sim_cls_def sim_verify_def sim_sign_def sim_sha256_def)
  have good: "verify sim (sim_serialize (sim_timer ''block-1''))
                (sim_sign (sim_serialize (sim_timer ''block-1'')) ''k1'')
                (cls_poet_public_key sim_cls)"
    by (simp add: sim_def sim_cls_def sim_verify_def)
  have p: "wait_timer_from_serialized sim = sim_wait_timer_from_serialized"
    by (simp add: sim_def)
  from deserialize_wait_timer_signature
         [of sim "sim_serialize (sim_timer ''block-1'')" "''forged''" sim_cls]
       deserialize_wait_timer_signature
         [of sim "sim_serialize (sim_timer ''block-1'')"
            "sim_sign (sim_serialize (sim_timer ''block-1'')) ''k1''" sim_cls]
       bad good
  show ?thesis by (simp add: p sim_parse_timer)
qed

subsection \<open>Unsealing\<close>

text \<open>
  C10. When the sealed data decodes to a JSON object, \<open>unseal_signup_data\<close> does not
  raise. A missing \<^verbatim>\<open>poet_public_key\<close> makes it return \<^verbatim>\<open>None\<close> and install the
  string \<^verbatim>\<open>'None'\<close> as the PoET public key, a missing \<^verbatim>\<open>poet_private_key\<close> makes it
  install \<^verbatim>\<open>'None'\<close> as the PoET private key; the private key is set in every case, so
  a later \<open>create_wait_timer\<close> does not fail its check of initialization.
\<close>

theorem unseal_signup_data_missing_keys:
  assumes "b64decode ext sealed = Inr raw"
    and "decode ext raw = Inr text"
    and "json2dict ext text = Inr (PDict kvs)"
  shows "\<exists>cls'. unseal_signup_data ext cls sealed
            = Inr (case map_of kvs ''poet_public_key'' of None \<Rightarrow> PNone | Some v \<Rightarrow> v, cls') \<and>
          (map_of kvs ''poet_public_key'' = None \<longrightarrow> cls_poet_public_key cls' = Some ''None'') \<and>
          (map_of kvs ''poet_private_key'' = None \<longrightarrow> cls_poet_private_key cls' = Some ''None'') \<and>
          cls_poet_private_key cls' \<noteq> None \<and>
          (\<forall>va pcid lm mwt now. create_wait_timer ext cls' va pcid lm mwt now
             \<noteq> Inl (ValueError TimerNotInitialized))"
  using assms
  by (auto simp: unseal_signup_data_def py_get_def py_str_def create_wait_timer_def Let_def
      tagd_Inl math_log_def split: option.splits sum.splits if_splits)

theorem unseal_signup_data_missing_keys_witness:
  "\<exists>cls'. unseal_signup_data sim sim_cls_fresh ''{}'' = Inr (PNone, cls') \<and>
     cls_poet_public_key cls' = Some ''None'' \<and> cls_poet_private_key cls' = Some ''None'' \<and>
     create_wait_timer sim cls' ''validator'' ''block-1'' 5 1 100
       \<noteq> Inl (ValueError TimerNotInitialized)"
proof -
  have a: "b64decode sim ''{}'' = Inr ''{}''" and b: "decode sim ''{}'' = Inr ''{}''"
    by (simp_all add: sim_def)
  have c: "json2dict sim ''{}'' = Inr (PDict [])"
    by (simp add: sim_def sim_json2dict_def)
  from unseal_signup_data_missing_keys [OF a b c, of sim_cls_fresh]
  show ?thesis by auto
qed

subsection \<open>Signup information\<close>

lemma on_ok_simps:
  "on_ok (Inr x) f = f x" "on_ok (Inl e) f = Inl e"
  by (simp_all add: on_ok_def)

lemma lib_simps:
  "lib (Inr x) = Inr x" "lib (Inl le) = Inl (LibraryError le)"
  by (simp_all add: lib_def)

lemma length_fromhex: "length (fromhex s) = length s div 2"
  by (induction s rule: fromhex.induct) simp_all

lemma length_VALID_BASENAME: "length VALID_BASENAME = 32"
  by (simp add: VALID_BASENAME_def length_fromhex)

lemma length_VALID_ENCLAVE_MEASUREMENT: "length VALID_ENCLAVE_MEASUREMENT = 32"
  by (simp add: VALID_ENCLAVE_MEASUREMENT_def length_fromhex)

lemma zero_filled_signup_quote:
  "zero_filled (signup_quote ext opkh ppk) =
     \<lparr>basename = \<lparr>name = VALID_BASENAME\<rparr>,
      report_body = \<lparr>mr_enclave = \<lparr>m = VALID_ENCLAVE_MEASUREMENT\<rparr>,
                     report_data = \<lparr>d = expected_report_data ext opkh ppk\<rparr>\<rparr>\<rparr>"
  by (simp add: zero_filled_def signup_quote_def Let_def expected_report_data_def
      length_VALID_BASENAME length_VALID_ENCLAVE_MEASUREMENT)

lemma verify_signup_info_report_create:
  assumes "signup_contract ext opkh (generate_pubkey ext privkey) n timestamp"
  shows "verify_signup_info_report ext (fst (create_signup_info ext cls opkh n privkey timestamp))
           = Inr (zero_filled (signup_quote ext opkh (generate_pubkey ext privkey)))"
proof -
  define ppk where "ppk = generate_pubkey ext privkey"
  define vr where "vr = signup_verification_report ext opkh ppk n timestamp"
  define vrj where "vrj = dict2json ext vr"
  define pd where "pd = signup_proof_data_dict ext opkh ppk n timestamp"
  define qb where "qb = serialize_to_bytes ext (signup_quote ext opkh ppk)"
  from assms have
    j1: "json2dict ext (dict2json ext pd) = Inr pd" and
    j2: "json2dict ext vrj = Inr vr" and
    b1: "b64decode ext (b64encode ext (report_sign ext vrj)) = Inr (report_sign ext vrj)" and
    b2: "b64decode ext (b64encode ext qb) = Inr qb" and
    rv: "report_verify ext (report_sign ext vrj) vrj" and
    up: "upper ext ''OK'' = ''OK''" and
    pq: "parse_from_bytes ext qb = Inr (zero_filled (signup_quote ext opkh ppk))"
    by (simp_all add: signup_contract_def ppk_def vr_def vrj_def pd_def qb_def)
  have pd_eq: "pd = PDict
           [(''evidence_payload'', PDict [(''pse_manifest'', PStr (b64encode ext opkh))]),
            (''verification_report'', PStr vrj),
            (''signature'', PStr (b64encode ext (report_sign ext vrj)))]"
    by (simp add: pd_def signup_proof_data_dict_def Let_def vrj_def vr_def)
  have vr_eq: "vr = PDict
           [(''epidPseudonym'', PStr opkh),
            (''id'', PStr (b64encode ext (hex (sha256 ext timestamp)))),
            (''isvEnclaveQuoteStatus'', PStr ''OK''),
            (''isvEnclaveQuoteBody'', PStr (b64encode ext qb)),
            (''pseManifestStatus'', PStr ''OK''),
            (''pseManifestHash'', PStr (b64encode ext (hex (sha256 ext (b64encode ext opkh))))),
            (''nonce'', PStr n),
            (''timestamp'', PStr timestamp)]"
    by (simp add: vr_def signup_verification_report_def Let_def qb_def)
  have si: "proof_data (fst (create_signup_info ext cls opkh n privkey timestamp)) = dict2json ext pd"
    "anti_sybil_id (fst (create_signup_info ext cls opkh n privkey timestamp)) = opkh"
    by (simp_all add: create_signup_info_def Let_def pd_def ppk_def)
  have "verify_signup_info_report ext (fst (create_signup_info ext cls opkh n privkey timestamp))
          = Inr (zero_filled (signup_quote ext opkh ppk))"
    unfolding verify_signup_info_report_def si j1
    by (simp add: pd_eq on_ok_simps lib_simps py_get_def as_str_def b1 rv j2)
       (simp add: vr_eq on_ok_simps lib_simps py_contains_def py_get_def as_str_def up
          b64decode_val_def b2 pq Let_def)
  then show ?thesis by (simp add: ppk_def)
qed

lemma sim_string_quote: "sim_string acc (sim_quote s @ r) = Some (rev acc @ s, r)"
  by (induction s arbitrary: acc) auto

lemma sim_json_verification_report:
  "sim_json2dict (sim_dict2json (PDict
     [(''epidPseudonym'', PStr a1), (''id'', PStr a2), (''isvEnclaveQuoteStatus'', PStr a3),
      (''isvEnclaveQuoteBody'', PStr a4), (''pseManifestStatus'', PStr a5),
      (''pseManifestHash'', PStr a6), (''nonce'', PStr a7), (''timestamp'', PStr a8)]))
   = Inr (PDict
     [(''epidPseudonym'', PStr a1), (''id'', PStr a2), (''isvEnclaveQuoteStatus'', PStr a3),
      (''isvEnclaveQuoteBody'', PStr a4), (''pseManifestStatus'', PStr a5),
      (''pseManifestHash'', PStr a6), (''nonce'', PStr a7), (''timestamp'', PStr a8)])"
  by (simp add: sim_json2dict_def sim_string_quote)

lemma sim_json_proof_data:
  "sim_json2dict (sim_dict2json (PDict
     [(''evidence_payload'', PDict [(''pse_manifest'', PStr a1)]),
      (''verification_report'', PStr a2), (''signature'', PStr a3)]))
   = Inr (PDict
     [(''evidence_payload'', PDict [(''pse_manifest'', PStr a1)]),
      (''verification_report'', PStr a2), (''signature'', PStr a3)])"
  by (simp add: sim_json2dict_def sim_string_quote)

lemma sim_fields:
  "sign sim = sim_sign" "verify sim = sim_verify" "generate_pubkey sim = sim_generate_pubkey"
  "b64encode sim = (\<lambda>b. b)" "b64decode sim = Inr" "sha256 sim = sim_sha256"
  "report_sign sim = sim_sha256" "report_verify sim = (\<lambda>sig msg. sig = sim_sha256 msg)"
  "dict2json sim = sim_dict2json" "json2dict sim = sim_json2dict"
  "decode sim = Inr" "upper sim = map sim_upper_char"
  "serialize_to_bytes sim = sim_serialize_to_bytes"
  "parse_from_bytes sim = sim_parse_from_bytes"
  by (simp_all add: sim_def)

lemma length_sim_sha256: "length (sim_sha256 b) = 32"
  by (simp add: sim_sha256_def)

lemma sim_pad_eq: "length b \<le> n \<Longrightarrow> sim_pad n b = b @ replicate (n - length b) (CHR 0x00)"
  by (simp add: sim_pad_def)

lemma sim_quote_roundtrip:
  assumes "length (name (basename q)) = 32" and "length (m (mr_enclave (report_body q))) = 32"
    and "length (d (report_data (report_body q))) \<le> 64"
  shows "sim_parse_from_bytes (sim_serialize_to_bytes q) = Inr (zero_filled q)"
  using assms
  by (simp add: sim_parse_from_bytes_def sim_serialize_to_bytes_def sim_pad_eq zero_filled_def
      SgxReportData_STRUCT_SIZE_def)

lemma sim_signup_contract: "signup_contract sim opkh ppk n timestamp"
proof -
  have q: "parse_from_bytes sim (serialize_to_bytes sim (signup_quote sim opkh ppk))
             = Inr (zero_filled (signup_quote sim opkh ppk))"
    unfolding sim_fields
    by (rule sim_quote_roundtrip)
      (simp_all add: signup_quote_def Let_def length_VALID_BASENAME
        length_VALID_ENCLAVE_MEASUREMENT sim_fields length_sim_sha256)
  have u: "upper sim ''OK'' = ''OK''"
    by (simp add: sim_fields sim_upper_char_def)
  have j1: "json2dict sim (dict2json sim (signup_proof_data_dict sim opkh ppk n timestamp))
              = Inr (signup_proof_data_dict sim opkh ppk n timestamp)"
    unfolding sim_fields signup_proof_data_dict_def Let_def by (rule sim_json_proof_data)
  have j2: "json2dict sim (dict2json sim (signup_verification_report sim opkh ppk n timestamp))
              = Inr (signup_verification_report sim opkh ppk n timestamp)"
    unfolding sim_fields signup_verification_report_def Let_def
    by (rule sim_json_verification_report)
  have b: "b64decode sim (b64encode sim x) = Inr x" for x
    by (simp add: sim_fields)
  have r: "report_verify sim (report_sign sim x) x" for x
    by (simp add: sim_fields)
  show ?thesis
    unfolding signup_contract_def using q u j1 j2 b r by blast
qed

lemma verify_signup_info_quote_eq:
  assumes "cls_poet_public_key cls = Some ppk"
  shows "verify_signup_info_quote ext cls (zero_filled (signup_quote ext opkh ppk')) opkh' =
     (if expected_report_data ext opkh ppk' \<noteq> expected_report_data ext opkh' ppk
      then Inl (ValueError ReportDataMismatch) else Inr ())"
  using assms by (simp add: verify_signup_info_quote_def zero_filled_signup_quote)

lemma expected_report_data_eq_iff:
  assumes "length (sha256 ext (upper ext a @ upper ext p)) = length (sha256 ext (upper ext b @ upper ext p'))"
  shows "expected_report_data ext a p = expected_report_data ext b p' \<longleftrightarrow>
         sha256 ext (upper ext a @ upper ext p) = sha256 ext (upper ext b @ upper ext p')"
  using assms by (auto simp: expected_report_data_def Let_def)

lemma create_signup_info_state:
  "cls_poet_public_key (snd (create_signup_info ext cls opkh n privkey timestamp))
     = Some (generate_pubkey ext privkey)"
  by (simp add: create_signup_info_def Let_def)

lemma verify_signup_info_create:
  assumes "signup_contract ext opkh (generate_pubkey ext privkey) n timestamp"
    and "create_signup_info ext cls opkh n privkey timestamp = (si, cls')"
  shows "verify_signup_info ext cls' si opkh' =
     (if expected_report_data ext opkh (generate_pubkey ext privkey)
           \<noteq> expected_report_data ext opkh' (generate_pubkey ext privkey)
      then Inl (ValueError ReportDataMismatch) else Inr ())"
proof -
  have si: "si = fst (create_signup_info ext cls opkh n privkey timestamp)"
    and cls': "cls' = snd (create_signup_info ext cls opkh n privkey timestamp)"
    using assms(2) by simp_all
  have k: "cls_poet_public_key cls' = Some (generate_pubkey ext privkey)"
    unfolding cls' by (rule create_signup_info_state)
  show ?thesis
    unfolding verify_signup_info_def si verify_signup_info_report_create [OF assms(1)] on_ok_simps
    unfolding verify_signup_info_quote_eq [OF k] ..
qed

lemma sim_create:
  "create_signup_info sim sim_cls_fresh opkh n ''k1'' timestamp
     = (fst (create_signup_info sim sim_cls_fresh opkh n ''k1'' timestamp), sim_cls)"
  by (simp add: create_signup_info_def Let_def sim_cls_fresh_def sim_cls_def sim_fields
      sim_generate_pubkey_def)

lemma sim_pubkey: "generate_pubkey sim ''k1'' = ''pub:k1''"
  by (simp add: sim_fields sim_generate_pubkey_def)

text \<open>
  C4, amended. With imported functions that read back what they wrote at this signup,
  \<open>verify_signup_info\<close> on the signup information that \<open>create_signup_info\<close> returned
  for \<open>OPKH\<close> succeeds for \<open>OPKH\<close> itself and for every originator public key hash with
  the same upper-case form, and it fails with the validation error on the report data
  for every originator public key hash whose SHA-256 over its upper-case form and the
  upper-case PoET public key differs.
\<close>

theorem verify_created_signup_info:
  assumes "signup_contract ext opkh (generate_pubkey ext privkey) n timestamp"
    and "\<forall>b. length (sha256 ext b) = 32"
    and "create_signup_info ext cls opkh n privkey timestamp = (si, cls')"
  shows "(upper ext opkh' = upper ext opkh \<longrightarrow> verify_signup_info ext cls' si opkh' = Inr ()) \<and>
         (sha256 ext (upper ext opkh' @ upper ext (generate_pubkey ext privkey))
            \<noteq> sha256 ext (upper ext opkh @ upper ext (generate_pubkey ext privkey)) \<longrightarrow>
          verify_signup_info ext cls' si opkh' = Inl (ValueError ReportDataMismatch))"
proof -
  have "expected_report_data ext opkh (generate_pubkey ext privkey)
          = expected_report_data ext opkh' (generate_pubkey ext privkey) \<longleftrightarrow>
        sha256 ext (upper ext opkh @ upper ext (generate_pubkey ext privkey))
          = sha256 ext (upper ext opkh' @ upper ext (generate_pubkey ext privkey))"
    by (rule expected_report_data_eq_iff) (simp add: assms(2))
  then show ?thesis
    unfolding verify_signup_info_create [OF assms(1,3)] by auto
qed

theorem verify_created_signup_info_witness:
  "verify_signup_info sim sim_cls
     (fst (create_signup_info sim sim_cls_fresh ''abc'' ''n1'' ''k1'' ''2017-01-01T00:00:00''))
     ''abc'' = Inr () \<and>
   verify_signup_info sim sim_cls
     (fst (create_signup_info sim sim_cls_fresh ''abc'' ''n1'' ''k1'' ''2017-01-01T00:00:00''))
     ''xyz'' = Inl (ValueError ReportDataMismatch)"
proof -
  have l: "\<forall>b. length (sha256 sim b) = 32"
    by (simp add: sim_fields length_sim_sha256)
  have ne: "sha256 sim (upper sim ''xyz'' @ upper sim (generate_pubkey sim ''k1''))
              \<noteq> sha256 sim (upper sim ''abc'' @ upper sim (generate_pubkey sim ''k1''))"
    by (simp add: sim_fields sim_generate_pubkey_def sim_upper_char_def sim_sha256_def)
  note w = verify_created_signup_info [OF sim_signup_contract l sim_create,
      where opkh = "''abc''" and n = "''n1''" and timestamp = "''2017-01-01T00:00:00''"]
  from w [of "''abc''"] w [of "''xyz''"] ne show ?thesis by simp
qed

text \<open>
  C4 as stated fails: \<^verbatim>\<open>'ABC'\<close> is a different originator public key hash from
  \<^verbatim>\<open>'abc'\<close>, and it verifies the signup information created for \<^verbatim>\<open>'abc'\<close>, since both
  sides upper-case it.
\<close>

theorem verify_signup_info_case_counterexample:
  "''ABC'' \<noteq> ''abc'' \<and>
   verify_signup_info sim
     (snd (create_signup_info sim sim_cls_fresh ''abc'' ''n1'' ''k1'' ''2017-01-01T00:00:00''))
     (fst (create_signup_info sim sim_cls_fresh ''abc'' ''n1'' ''k1'' ''2017-01-01T00:00:00''))
     ''ABC'' = Inr ()"
proof -
  have u: "upper sim ''ABC'' = upper sim ''abc''"
    by (simp add: sim_fields sim_upper_char_def)
  have "verify_signup_info sim
     (snd (create_signup_info sim sim_cls_fresh ''abc'' ''n1'' ''k1'' ''2017-01-01T00:00:00''))
     (fst (create_signup_info sim sim_cls_fresh ''abc'' ''n1'' ''k1'' ''2017-01-01T00:00:00''))
     ''ABC'' = Inr ()"
    by (simp add: verify_signup_info_create [OF sim_signup_contract prod.collapse [symmetric]]
        expected_report_data_def u)
  then show ?thesis by simp
qed

lemma verify_signup_info_report_announced:
  "verify_signup_info_report ext (si\<lparr>poet_public_key := announced\<rparr>)
     = verify_signup_info_report ext si"
  by (simp add: verify_signup_info_report_def cong: if_cong)

text \<open>
  C5. Once the checks of the verification report have passed, \<open>verify_signup_info\<close>
  compares the report data of the parsed quote with
  \<open>SHA256(upper(OPKH) || upper(PPK))\<close> right-padded with zero bytes to 64 bytes, where
  \<open>PPK\<close> is the PoET public key the verifying enclave holds: a mismatch is the validation
  error on the report data, and the PoET public key announced in the signup information
  plays no part.
\<close>

theorem verify_signup_info_report_data:
  assumes "verify_signup_info_report ext si = Inr q"
    and "cls_poet_public_key cls = Some ppk"
  shows "(d (report_data (report_body q)) \<noteq>
            sha256 ext (upper ext opkh @ upper ext ppk) @
              replicate (64 - length (sha256 ext (upper ext opkh @ upper ext ppk))) (CHR 0x00) \<longrightarrow>
          verify_signup_info ext cls si opkh = Inl (ValueError ReportDataMismatch)) \<and>
         (verify_signup_info ext cls si opkh = Inr () \<longrightarrow>
          d (report_data (report_body q)) =
            sha256 ext (upper ext opkh @ upper ext ppk) @
              replicate (64 - length (sha256 ext (upper ext opkh @ upper ext ppk))) (CHR 0x00)) \<and>
         (length (sha256 ext (upper ext opkh @ upper ext ppk)) \<le> 64 \<longrightarrow>
          length (sha256 ext (upper ext opkh @ upper ext ppk) @
              replicate (64 - length (sha256 ext (upper ext opkh @ upper ext ppk))) (CHR 0x00)) = 64) \<and>
         (\<forall>announced. verify_signup_info ext cls (si\<lparr>poet_public_key := announced\<rparr>) opkh
            = verify_signup_info ext cls si opkh)"
  using assms
  by (auto simp: verify_signup_info_def verify_signup_info_report_announced on_ok_simps
      verify_signup_info_quote_def expected_report_data_def Let_def SgxReportData_STRUCT_SIZE_def
      split: if_splits)

theorem verify_signup_info_report_data_witness:
  "verify_signup_info sim sim_cls_other
     (fst (create_signup_info sim sim_cls_fresh ''abc'' ''n1'' ''k1'' ''2017-01-01T00:00:00''))
     ''abc'' = Inl (ValueError ReportDataMismatch) \<and>
   verify_signup_info sim sim_cls
     ((fst (create_signup_info sim sim_cls_fresh ''abc'' ''n1'' ''k1'' ''2017-01-01T00:00:00''))
        \<lparr>poet_public_key := ''pub:k2''\<rparr>)
     ''abc'' = Inr ()"
proof -
  let ?si = "fst (create_signup_info sim sim_cls_fresh ''abc'' ''n1'' ''k1'' ''2017-01-01T00:00:00'')"
  let ?q = "zero_filled (signup_quote sim ''abc'' ''pub:k1'')"
  have r: "verify_signup_info_report sim ?si = Inr ?q"
    using verify_signup_info_report_create [OF sim_signup_contract,
        where opkh = "''abc''" and privkey = "''k1''" and n = "''n1''"
          and timestamp = "''2017-01-01T00:00:00''" and cls = sim_cls_fresh]
    by (simp only: sim_pubkey)
  have k1: "cls_poet_public_key sim_cls = Some ''pub:k1''"
    by (simp add: sim_cls_def)
  have k2: "cls_poet_public_key sim_cls_other = Some ''pub:k2''"
    by (simp add: sim_cls_other_def)
  have ne: "d (report_data (report_body ?q)) \<noteq>
      sha256 sim (upper sim ''abc'' @ upper sim ''pub:k2'') @
        replicate (64 - length (sha256 sim (upper sim ''abc'' @ upper sim ''pub:k2''))) (CHR 0x00)"
    by (simp add: zero_filled_signup_quote expected_report_data_def Let_def sim_fields
        sim_upper_char_def sim_sha256_def)
  have ok: "verify_signup_info sim sim_cls ?si ''abc'' = Inr ()"
    by (simp add: verify_signup_info_create [OF sim_signup_contract sim_create])
  from verify_signup_info_report_data [OF r k2, of "''abc''"]
       verify_signup_info_report_data [OF r k1, of "''abc''"] ne ok
  show ?thesis by simp
qed

end
